theory Spec2Isabelle
  imports Main
begin

section \<open>Exceptions and logging\<close>

text \<open>
  A Python exception is a value; a function that can raise returns \<open>exn + 'a\<close>, with
  \<open>Inl\<close> the exception raised. The constructors are the exception classes the two
  modules name, \<open>UnboundLocalError\<close>, \<open>AttributeError\<close> and \<open>KeyError\<close>, which their
  statements can raise, and \<open>OtherError\<close> for an exception of any class outside these,
  each with its message. A log is the list
  of records written with \<open>error\<close>: \<open>LogError e\<close> for \<open>logging.error(e)\<close> and
  \<open>LogErrorRunningJob j e\<close> for the message \<open>"Error running job {j}: {e}"\<close>.
\<close>

datatype exn =
    SlackConfigurationError string
  | SlackApiError string
  | GoogleCloudError string
  | TimeoutError string
  | RuntimeError string
  | UnboundLocalError string
  | AttributeError string
  | KeyError string
  | OtherError string

datatype log_record =
    LogError exn
  | LogErrorRunningJob string exn

section \<open>Slack alerts (data\_steward/utils/slack\_alerts.py)\<close>

text \<open>
  The module reads two environment variables and talks to the Slack web API. The
  environment \<open>os.environ\<close> is a map from names to values. The web API is outside the
  repository: its two methods are taken as parameters, each either raising or returning a
  response. Every call that reaches the network is recorded, in order, in a list of calls,
  and \<open>logging.error\<close> appends the logged exception to a log.
\<close>

type_synonym environ = "string \<rightharpoonup> string"

type_synonym channel = "(string \<times> string) list"

record slack_response =
  status_code :: int
  data_channels :: "channel list option"

record web_api =
  conversations_list :: "string \<Rightarrow> exn + slack_response"
  chat_postMessage :: "string \<Rightarrow> string \<Rightarrow> string \<Rightarrow> exn + slack_response"

datatype network_call =
    ConversationsList string
  | ChatPostMessage string string string

definition SLACK_TOKEN :: string where
  "SLACK_TOKEN = ''SLACK_TOKEN''"

definition SLACK_CHANNEL :: string where
  "SLACK_CHANNEL = ''SLACK_CHANNEL''"

definition UNSET_SLACK_TOKEN_MSG :: string where
  "UNSET_SLACK_TOKEN_MSG = ''Slack token not set in environment variable '' @ SLACK_TOKEN"

definition UNSET_SLACK_CHANNEL_MSG :: string where
  "UNSET_SLACK_CHANNEL_MSG = ''Slack channel not set in environment variable '' @ SLACK_CHANNEL"

text \<open>\<open>_get_slack_token\<close>: the token, or the configuration error when the variable is absent.\<close>

definition get_slack_token :: "environ \<Rightarrow> exn + string" where
  "get_slack_token env =
     (case env SLACK_TOKEN of
        None \<Rightarrow> Inl (SlackConfigurationError UNSET_SLACK_TOKEN_MSG)
      | Some tok \<Rightarrow> Inr tok)"

text \<open>\<open>_get_slack_channel_name\<close>.\<close>

definition get_slack_channel_name :: "environ \<Rightarrow> exn + string" where
  "get_slack_channel_name env =
     (case env SLACK_CHANNEL of
        None \<Rightarrow> Inl (SlackConfigurationError UNSET_SLACK_CHANNEL_MSG)
      | Some ch \<Rightarrow> Inr ch)"

text \<open>
  \<open>_get_slack_client\<close>: \<open>slack.WebClient(slack_token)\<close> only stores the token, so the
  client is the token it was built from.
\<close>

definition get_slack_client :: "environ \<Rightarrow> exn + string" where
  "get_slack_client env =
     (case get_slack_token env of
        Inl e \<Rightarrow> Inl e
      | Inr slack_token \<Rightarrow> Inr slack_token)"

text \<open>
  \<open>post_message\<close>: the client first, then the channel name, then the one call to
  \<open>chat_postMessage\<close>. The result is what the function returns or raises, with the network
  calls it made.
\<close>

definition post_message ::
  "environ \<Rightarrow> web_api \<Rightarrow> string \<Rightarrow> (exn + slack_response) \<times> network_call list" where
  "post_message env api text_arg =
     (case get_slack_client env of
        Inl e \<Rightarrow> (Inl e, [])
      | Inr slack_client \<Rightarrow>
          (case get_slack_channel_name env of
             Inl e \<Rightarrow> (Inl e, [])
           | Inr slack_channel_name \<Rightarrow>
               (chat_postMessage api slack_client slack_channel_name text_arg,
                [ChatPostMessage slack_client slack_channel_name text_arg])))"

text \<open>
  The loop of \<open>is_channel_available\<close> over \<open>response.data['channels']\<close>: it returns
  \<open>True\<close> at the first channel whose \<open>'name'\<close> is the configured one, and a channel
  without a \<open>'name'\<close> key met before that raises \<open>KeyError\<close>. \<open>Inr False\<close> is the loop
  running to its end.
\<close>

fun find_channel :: "string \<Rightarrow> channel list \<Rightarrow> exn + bool" where
  "find_channel channel_name [] = Inr False"
| "find_channel channel_name (c # cs) =
     (case map_of c ''name'' of
        None \<Rightarrow> Inl (KeyError ''name'')
      | Some n \<Rightarrow> if n = channel_name then Inr True else find_channel channel_name cs)"

text \<open>
  The \<open>except (SlackConfigurationError, SlackApiError)\<close> clause: these two are logged and
  the function falls through to \<open>return False\<close>; any other exception leaves the function.
\<close>

definition slack_handler ::
  "exn \<Rightarrow> network_call list \<Rightarrow> (exn + bool) \<times> network_call list \<times> log_record list" where
  "slack_handler e calls =
     (case e of
        SlackConfigurationError m \<Rightarrow> (Inr False, calls, [LogError e])
      | SlackApiError m \<Rightarrow> (Inr False, calls, [LogError e])
      | _ \<Rightarrow> (Inl e, calls, []))"

definition is_channel_available ::
  "environ \<Rightarrow> web_api \<Rightarrow> (exn + bool) \<times> network_call list \<times> log_record list" where
  "is_channel_available env api =
     (case get_slack_client env of
        Inl e \<Rightarrow> slack_handler e []
      | Inr client \<Rightarrow>
          (case get_slack_channel_name env of
             Inl e \<Rightarrow> slack_handler e []
           | Inr channel_name \<Rightarrow>
               (case conversations_list api client of
                  Inl e \<Rightarrow> slack_handler e [ConversationsList client]
                | Inr response \<Rightarrow>
                    if status_code response = 200 then
                      (case data_channels response of
                         None \<Rightarrow> slack_handler (KeyError ''channels'') [ConversationsList client]
                       | Some channels \<Rightarrow>
                           (case find_channel channel_name channels of
                              Inl e \<Rightarrow> slack_handler e [ConversationsList client]
                            | Inr found \<Rightarrow> (Inr found, [ConversationsList client], [])))
                    else (Inr False, [ConversationsList client], []))))"

section \<open>Resolving the tables of a dataset (cleaning\_rules/deid/concept\_suppression.py)\<close>

text \<open>
  \<open>GET_ALL_TABLES_QUERY_TEMPLATE\<close> rendered with its three arguments: the query
  \<open>SELECT table_id FROM `project.dataset.__TABLES__` WHERE table_id IN ('n1', 'n2', ...)\<close>.
  The template is kept as the values it is rendered with, each table name standing for the
  SQL string literal that denotes it.
\<close>

record tables_query =
  tq_project :: string
  tq_dataset :: string
  tq_table_names :: "string list"

definition GET_ALL_TABLES_QUERY :: "string \<Rightarrow> string \<Rightarrow> string list \<Rightarrow> tables_query" where
  "GET_ALL_TABLES_QUERY project dataset table_names =
     \<lparr>tq_project = project, tq_dataset = dataset, tq_table_names = table_names\<rparr>"

text \<open>
  The query engine is outside the repository. \<open>client.query\<close> returns a job (or raises);
  \<open>query_job.result()\<close> raises or returns the result object, the client library's
  \<open>RowIterator\<close>: it is iterated for its rows (each row read through \<open>row.items()\<close>) and
  has a \<open>job_id\<close>, and it has no attribute \<open>errors\<close>. \<open>query_job.errors\<close> is \<open>None\<close> or
  a list.
\<close>

type_synonym bq_row = "(string \<times> string) list"

record row_iterator =
  it_rows :: "bq_row list"
  it_job_id :: string

record query_job =
  job_id :: string
  job_result :: "exn + row_iterator"
  job_errors :: "string list option"

type_synonym client = "tables_query \<Rightarrow> exn + query_job"

definition TABLE_ID :: string where
  "TABLE_ID = ''table_id''"

text \<open>Python's truth value of an optional list: \<open>None\<close> and the empty list are false.\<close>

definition truthy :: "'a list option \<Rightarrow> bool" where
  "truthy v = (case v of None \<Rightarrow> False | Some xs \<Rightarrow> xs \<noteq> [])"

text \<open>
  The classes of \<open>except (GoogleCloudError, TimeoutError, RuntimeError)\<close>;
  \<open>SlackConfigurationError\<close> is a subclass of \<open>RuntimeError\<close>.
\<close>

fun caught_by_get_tables :: "exn \<Rightarrow> bool" where
  "caught_by_get_tables (GoogleCloudError m) = True"
| "caught_by_get_tables (TimeoutError m) = True"
| "caught_by_get_tables (RuntimeError a) = True"
| "caught_by_get_tables (SlackConfigurationError m) = True"
| "caught_by_get_tables e = False"

text \<open>
  The handler of \<open>get_tables_in_dataset\<close>. Its first statement formats
  \<open>result.job_id\<close> into the log message, where \<open>result\<close> is the local variable assigned
  by \<open>result = query_job.result()\<close> inside the \<open>try\<close>: the argument is \<open>None\<close> when the
  exception came from that call, the variable being unbound then, and reading it raises
  \<open>UnboundLocalError\<close> in place of the logging and of the bare \<open>raise\<close>.
\<close>

definition get_tables_handler ::
  "row_iterator option \<Rightarrow> exn \<Rightarrow> (exn + string list) \<times> log_record list" where
  "get_tables_handler result e =
     (if caught_by_get_tables e then
        (case result of
           None \<Rightarrow> (Inl (UnboundLocalError ''result''), [])
         | Some r \<Rightarrow> (Inl e, [LogErrorRunningJob (it_job_id r) e]))
      else (Inl e, []))"

text \<open>
  The comprehension \<open>[dict(row.items())[TABLE_ID] for row in result]\<close>: \<open>dict\<close> keeps the
  last value of a repeated key, and a row without the key raises \<open>KeyError\<close>.
\<close>

fun table_ids :: "bq_row list \<Rightarrow> exn + string list" where
  "table_ids [] = Inr []"
| "table_ids (row # rows) =
     (case map_of (rev row) TABLE_ID of
        None \<Rightarrow> Inl (KeyError TABLE_ID)
      | Some v \<Rightarrow> (case table_ids rows of Inl e \<Rightarrow> Inl e | Inr vs \<Rightarrow> Inr (v # vs)))"

text \<open>
  \<open>get_tables_in_dataset\<close>. \<open>client.query\<close> is called before the \<open>try\<close>. Inside it,
  when \<open>query_job.errors\<close> is true the statement \<open>raise RuntimeError(result.errors)\<close>
  first evaluates \<open>result.errors\<close> on the result object, which has no such attribute:
  that raises \<open>AttributeError\<close>, a class the \<open>except\<close> clause does not list.
\<close>

definition get_tables_in_dataset ::
  "client \<Rightarrow> string \<Rightarrow> string \<Rightarrow> string list \<Rightarrow> (exn + string list) \<times> log_record list" where
  "get_tables_in_dataset client project_id dataset_id table_names =
     (case client (GET_ALL_TABLES_QUERY project_id dataset_id table_names) of
        Inl e \<Rightarrow> (Inl e, [])
      | Inr query_job \<Rightarrow>
          (case job_result query_job of
             Inl e \<Rightarrow> get_tables_handler None e
           | Inr result \<Rightarrow>
               if truthy (job_errors query_job)
               then get_tables_handler (Some result) (AttributeError ''errors'')
               else (case table_ids (it_rows result) of
                       Inl e \<Rightarrow> get_tables_handler (Some result) e
                     | Inr names \<Rightarrow> (Inr names, []))))"

text \<open>
  What the metadata query means: \<open>tables project dataset\<close> is the \<open>table_id\<close> column of
  \<open>project.dataset.__TABLES__\<close>, and the query returns, as one-column rows, its values
  that are among the listed names.
\<close>

definition run_tables_query :: "(string \<Rightarrow> string \<Rightarrow> string list) \<Rightarrow> tables_query \<Rightarrow> bq_row list" where
  "run_tables_query tables q =
     map (\<lambda>t. [(TABLE_ID, t)])
       (filter (\<lambda>t. t \<in> set (tq_table_names q)) (tables (tq_project q) (tq_dataset q)))"

section \<open>Concept suppression rules (cleaning\_rules/deid/concept\_suppression.py)\<close>

text \<open>
  A rule instance holds the arguments its constructor passes to
  \<open>BaseCleaningRule.__init__\<close>. That base class and the module \<open>resources\<close> are defined
  elsewhere in the repository, so what the rules call from them is taken as a parameter:
  \<open>resources.get_concept_id_fields\<close>, \<open>resources.has_domain_table_id\<close> and the method
  \<open>sandbox_table_for\<close> of the rule instance.
\<close>

record rule =
  project_id :: string
  dataset_id :: string
  sandbox_dataset_id :: string
  issue_numbers :: "string list"
  description :: string
  affected_datasets :: "string list"
  affected_tables :: "string list"

record imported =
  get_concept_id_fields :: "string \<Rightarrow> string list"
  has_domain_table_id :: "string \<Rightarrow> bool"
  sandbox_table_for :: "string \<Rightarrow> string"

text \<open>
  The queries of a QuerySpec, each a template with the values it is rendered with, in the
  order of its \<open>render\<close> call: \<open>SUPPRESSION_RECORD_QUERY_TEMPLATE\<close> (project, dataset,
  sandbox\_dataset, domain\_table, sandbox\_table), \<open>BQ_LOOKUP_TABLE_SANDBOX_QUERY_TEMPLATE\<close>
  (project, dataset, sandbox\_dataset, domain\_table, concept\_fields, suppression\_concept)
  and \<open>IN_MEMORY_SANDBOX_QUERY_TEMPLATE\<close> (project, dataset, sandbox\_dataset,
  domain\_table, concept\_fields, suppressed\_concept\_ids). The last constructor is the
  cleanup statement of one sandbox table (project, sandbox dataset, sandbox table).
\<close>

datatype query =
    SUPPRESSION_RECORD_QUERY string string string string string
  | BQ_LOOKUP_TABLE_SANDBOX_QUERY string string string string "string list" string
  | IN_MEMORY_SANDBOX_QUERY string string string string "string list" "int list"
  | DROP_EMPTY_SANDBOX_TABLE_QUERY string string string

datatype disposition = WRITE_TRUNCATE | WRITE_APPEND

text \<open>A QuerySpec is a dictionary; a key it does not have is \<open>None\<close>.\<close>

record query_spec =
  QUERY :: query
  DESTINATION_DATASET :: "string option"
  DESTINATION_TABLE :: "string option"
  DISPOSITION :: "disposition option"

text \<open>
  \<open>AbstractConceptSuppression.__init__\<close>: the comprehension keeps a table when
  \<open>get_concept_id_fields(table_name)\<close> is a non-empty list and
  \<open>has_domain_table_id(table_name)\<close> holds, and the rest goes to the base constructor.
\<close>

definition AbstractConceptSuppression_init ::
  "imported \<Rightarrow> string \<Rightarrow> string \<Rightarrow> string \<Rightarrow> string list \<Rightarrow> string \<Rightarrow> string list
     \<Rightarrow> string list \<Rightarrow> rule" where
  "AbstractConceptSuppression_init res project dataset sandbox_dataset issues descr datasets tables =
     \<lparr>project_id = project, dataset_id = dataset, sandbox_dataset_id = sandbox_dataset,
      issue_numbers = issues, description = descr, affected_datasets = datasets,
      affected_tables =
        filter (\<lambda>table_name. get_concept_id_fields res table_name \<noteq> [] \<and>
                              has_domain_table_id res table_name) tables\<rparr>"

definition get_sandbox_tablenames :: "imported \<Rightarrow> 'a rule_scheme \<Rightarrow> string list" where
  "get_sandbox_tablenames res r = map (sandbox_table_for res) (affected_tables r)"

definition get_suppression_query :: "imported \<Rightarrow> 'a rule_scheme \<Rightarrow> string \<Rightarrow> query_spec" where
  "get_suppression_query res r table_name =
     \<lparr>QUERY = SUPPRESSION_RECORD_QUERY (project_id r) (dataset_id r) (sandbox_dataset_id r)
                table_name (sandbox_table_for res table_name),
      DESTINATION_DATASET = Some (dataset_id r),
      DESTINATION_TABLE = Some table_name,
      DISPOSITION = Some WRITE_TRUNCATE\<rparr>"

text \<open>
  Modelled from the spec: \<open>get_delete_empty_sandbox_tables_queries\<close> is imported from
  \<open>base_cleaning_rule\<close>, whose source is missing. The specification describes
  its result as the cleanup QuerySpecs that drop any sandbox table that ended up empty, a
  cleanup candidate per table: one spec for each sandbox table name it is given, in order,
  holding only the cleanup statement.
\<close>

definition get_delete_empty_sandbox_tables_queries ::
  "string \<Rightarrow> string \<Rightarrow> string list \<Rightarrow> query_spec list" where
  "get_delete_empty_sandbox_tables_queries project sandbox_dataset sandbox_tables =
     map (\<lambda>sandbox_table.
            \<lparr>QUERY = DROP_EMPTY_SANDBOX_TABLE_QUERY project sandbox_dataset sandbox_table,
             DESTINATION_DATASET = None, DESTINATION_TABLE = None, DISPOSITION = None\<rparr>)
         sandbox_tables"

text \<open>
  \<open>get_query_specs\<close>. The abstract method \<open>get_sandbox_query\<close> is whatever the concrete
  rule supplies, the first argument here.
\<close>

definition get_query_specs ::
  "(string \<Rightarrow> query_spec) \<Rightarrow> imported \<Rightarrow> 'a rule_scheme \<Rightarrow> query_spec list" where
  "get_query_specs get_sandbox_query res r =
     (let sandbox_queries = map get_sandbox_query (affected_tables r);
          queries = map (get_suppression_query res r) (affected_tables r);
          delete_empty_sandbox_queries =
            get_delete_empty_sandbox_tables_queries (project_id r) (sandbox_dataset_id r)
              (get_sandbox_tablenames res r)
      in sandbox_queries @ queries @ delete_empty_sandbox_queries)"

text \<open>
  The two strategies. A lookup-table rule adds the name of its lookup table to the rule; an
  in-memory rule adds the list its \<open>get_suppressed_concept_ids\<close> returns.
\<close>

record bq_lookup_rule = rule +
  concept_suppression_lookup_table :: string

record in_memory_rule = rule +
  get_suppressed_concept_ids :: "int list"

definition bq_lookup_get_sandbox_query :: "imported \<Rightarrow> bq_lookup_rule \<Rightarrow> string \<Rightarrow> query_spec" where
  "bq_lookup_get_sandbox_query res r table_name =
     \<lparr>QUERY = BQ_LOOKUP_TABLE_SANDBOX_QUERY (project_id r) (dataset_id r) (sandbox_dataset_id r)
                table_name (get_concept_id_fields res table_name)
                (concept_suppression_lookup_table r),
      DESTINATION_DATASET = Some (sandbox_dataset_id r),
      DESTINATION_TABLE = Some (sandbox_table_for res table_name),
      DISPOSITION = Some WRITE_TRUNCATE\<rparr>"

definition in_memory_get_sandbox_query :: "imported \<Rightarrow> in_memory_rule \<Rightarrow> string \<Rightarrow> query_spec" where
  "in_memory_get_sandbox_query res r table_name =
     \<lparr>QUERY = IN_MEMORY_SANDBOX_QUERY (project_id r) (dataset_id r) (sandbox_dataset_id r)
                table_name (get_concept_id_fields res table_name)
                (get_suppressed_concept_ids r),
      DESTINATION_DATASET = Some (sandbox_dataset_id r),
      DESTINATION_TABLE = Some (sandbox_table_for res table_name),
      DISPOSITION = Some WRITE_TRUNCATE\<rparr>"

section \<open>What the generated queries select\<close>

text \<open>
  The claims about rows need the meaning of the three SELECT templates. A cell is NULL, an
  integer or a string; a row maps column names to cells (a column the row does not carry
  reads as NULL); a database maps (project, dataset, table) to the rows of the table, when
  the table exists. SQL's \<open>=\<close> holds only between two equal cells neither of which is NULL.
\<close>

datatype sql_value = NULL | INT64 int | STRING string

type_synonym row = "(string \<times> sql_value) list"

type_synonym database = "string \<times> string \<times> string \<rightharpoonup> row list"

definition col :: "row \<Rightarrow> string \<Rightarrow> sql_value" where
  "col r c = (case map_of r c of None \<Rightarrow> NULL | Some v \<Rightarrow> v)"

definition sql_eq :: "sql_value \<Rightarrow> sql_value \<Rightarrow> bool" where
  "sql_eq a b = (a \<noteq> NULL \<and> b \<noteq> NULL \<and> a = b)"

text \<open>
  \<open>LEFT JOIN s ON d.c = s.k\<close>, seen from one row of \<open>d\<close> with \<open>v\<close> in column \<open>c\<close>:
  the values of \<open>s.k\<close> the row is paired with are those of the rows of \<open>s\<close> that match, one
  output row each, and a single NULL when none matches.
\<close>

definition left_join :: "sql_value \<Rightarrow> sql_value list \<Rightarrow> sql_value list" where
  "left_join v ks = (let ms = filter (sql_eq v) ks in if ms = [] then [NULL] else ms)"

text \<open>
  The chain of joins of the sandbox templates, \<open>LEFT JOIN ... AS s1 ON d.f1 = s1.concept_id\<close>,
  \<open>LEFT JOIN ... AS s2 ON d.f2 = s2.concept_id\<close>, ...: for one row \<open>d\<close>, the tuples
  \<open>(s1.concept_id, s2.concept_id, ...)\<close> of the joined rows built on it.
\<close>

fun joined :: "sql_value list \<Rightarrow> string list \<Rightarrow> row \<Rightarrow> sql_value list list" where
  "joined ks [] d = [[]]"
| "joined ks (f # fs) d =
     concat (map (\<lambda>m. map (\<lambda>rest. m # rest) (joined ks fs d)) (left_join (col d f) ks))"

fun coalesce :: "sql_value list \<Rightarrow> sql_value" where
  "coalesce [] = NULL"
| "coalesce (v # vs) = (if v = NULL then coalesce vs else v)"

text \<open>
  \<open>SELECT d.* FROM d LEFT JOIN ... WHERE COALESCE(s1.concept_id, s2.concept_id, ...) IS NOT NULL\<close>:
  each joined row that passes the WHERE clause contributes its \<open>d\<close> part.
\<close>

definition select_sandbox :: "sql_value list \<Rightarrow> string list \<Rightarrow> row list \<Rightarrow> row list" where
  "select_sandbox ks concept_fields rows =
     concat (map (\<lambda>d. map (\<lambda>j. d)
                        (filter (\<lambda>j. coalesce j \<noteq> NULL) (joined ks concept_fields d)))
                 rows)"

text \<open>
  \<open>SELECT d.* FROM d LEFT JOIN s ON d.id = s.id WHERE s.id IS NULL\<close>, the query of
  \<open>SUPPRESSION_RECORD_QUERY_TEMPLATE\<close>.
\<close>

definition select_not_sandboxed :: "string \<Rightarrow> row list \<Rightarrow> row list \<Rightarrow> row list" where
  "select_not_sandboxed id_col sandbox rows =
     concat (map (\<lambda>d. map (\<lambda>m. d)
                        (filter (\<lambda>m. m = NULL)
                           (left_join (col d id_col) (map (\<lambda>s. col s id_col) sandbox))))
                 rows)"

text \<open>
  The rows a query returns on a database; \<open>None\<close> when the engine rejects it: a table it
  reads does not exist, or the template was rendered with no concept field, which leaves
  \<open>COALESCE()\<close> without arguments. The in-memory template reads its concept identifiers
  from the inlined array. The cleanup statement returns no rows.
\<close>

fun run_query :: "database \<Rightarrow> query \<Rightarrow> row list option" where
  "run_query db (SUPPRESSION_RECORD_QUERY project dataset sandbox_dataset domain_table sandbox_table) =
     (case db (project, dataset, domain_table) of
        None \<Rightarrow> None
      | Some rows \<Rightarrow>
          (case db (project, sandbox_dataset, sandbox_table) of
             None \<Rightarrow> None
           | Some sandbox \<Rightarrow> Some (select_not_sandboxed (domain_table @ ''_id'') sandbox rows)))"
| "run_query db (BQ_LOOKUP_TABLE_SANDBOX_QUERY project dataset sandbox_dataset domain_table
                   concept_fields suppression_concept) =
     (if concept_fields = [] then None
      else case db (project, dataset, domain_table) of
        None \<Rightarrow> None
      | Some rows \<Rightarrow>
          (case db (project, sandbox_dataset, suppression_concept) of
             None \<Rightarrow> None
           | Some lookup \<Rightarrow>
               Some (select_sandbox (map (\<lambda>s. col s ''concept_id'') lookup) concept_fields rows)))"
| "run_query db (IN_MEMORY_SANDBOX_QUERY project dataset sandbox_dataset domain_table
                   concept_fields suppressed_concept_ids) =
     (if concept_fields = [] then None
      else case db (project, dataset, domain_table) of
        None \<Rightarrow> None
      | Some rows \<Rightarrow> Some (select_sandbox (map INT64 suppressed_concept_ids) concept_fields rows))"
| "run_query db (DROP_EMPTY_SANDBOX_TABLE_QUERY project sandbox_dataset sandbox_table) = Some []"

section \<open>Example data\<close>

text \<open>
  A small configuration on which the properties below are evaluated: \<open>observation\<close> has
  two concept-id columns, \<open>condition_occurrence\<close> one and \<open>person\<close> none; the dataset
  holds two observations, of which the first has the suppressed concept 99 in its second
  concept-id column only.
\<close>

definition example_imported :: imported where
  "example_imported =
     \<lparr>get_concept_id_fields =
        (\<lambda>t. if t = ''observation'' then [''observation_concept_id'', ''value_as_concept_id'']
              else if t = ''condition_occurrence'' then [''condition_concept_id'']
              else []),
      has_domain_table_id = (\<lambda>t. t = ''observation'' \<or> t = ''condition_occurrence'' \<or> t = ''person''),
      sandbox_table_for = (\<lambda>t. ''dc1_'' @ t)\<rparr>"

definition example_observation_1 :: row where
  "example_observation_1 =
     [(''observation_id'', INT64 1), (''observation_concept_id'', INT64 10),
      (''value_as_concept_id'', INT64 99)]"

definition example_observation_2 :: row where
  "example_observation_2 =
     [(''observation_id'', INT64 2), (''observation_concept_id'', INT64 10),
      (''value_as_concept_id'', NULL)]"

definition example_database :: database where
  "example_database =
     Map.empty
       ((''project'', ''dataset'', ''observation'') \<mapsto> [example_observation_1, example_observation_2],
        (''project'', ''sandbox'', ''suppressed_concepts'') \<mapsto> [[(''concept_id'', INT64 99)]],
        (''project'', ''sandbox'', ''dc1_observation'') \<mapsto> [example_observation_1])"

definition example_bq_lookup_rule :: bq_lookup_rule where
  "example_bq_lookup_rule =
     \<lparr>project_id = ''project'', dataset_id = ''dataset'', sandbox_dataset_id = ''sandbox'',
      issue_numbers = [''DC-1''], description = ''suppress concepts'', affected_datasets = [],
      affected_tables = [''observation''],
      concept_suppression_lookup_table = ''suppressed_concepts''\<rparr>"

definition example_in_memory_rule :: in_memory_rule where
  "example_in_memory_rule =
     \<lparr>project_id = ''project'', dataset_id = ''dataset'', sandbox_dataset_id = ''sandbox'',
      issue_numbers = [''DC-1''], description = ''suppress concepts'', affected_datasets = [],
      affected_tables = [''observation''],
      get_suppressed_concept_ids = [99]\<rparr>"

section \<open>Properties of the Slack module\<close>

lemma find_channel_True:
  "find_channel channel_name cs = Inr True \<Longrightarrow>
     \<exists>c \<in> set cs. map_of c ''name'' = Some channel_name"
  by (induction cs) (auto split: option.splits if_splits)

lemma slack_handler_configuration:
  "slack_handler (SlackConfigurationError m) calls = (Inr False, calls, [LogError (SlackConfigurationError m)])"
  by (simp add: slack_handler_def)

lemma slack_handler_api:
  "slack_handler (SlackApiError m) calls = (Inr False, calls, [LogError (SlackApiError m)])"
  by (simp add: slack_handler_def)

lemma slack_handler_raises:
  "fst (slack_handler e calls) = Inl e' \<Longrightarrow>
     e' = e \<and> (\<forall>m. e \<noteq> SlackConfigurationError m) \<and> (\<forall>m. e \<noteq> SlackApiError m)"
  by (cases e) (auto simp: slack_handler_def)

lemma slack_handler_not_True: "fst (slack_handler e calls) \<noteq> Inr True"
  by (cases e) (auto simp: slack_handler_def)

text \<open>
  C9. When the access-token variable or the channel-name variable is absent from the
  environment, \<open>post_message\<close> raises \<open>SlackConfigurationError\<close> (with the message of the
  first missing variable, the token being read first) and has made no network call; the
  exception raised is not the delivery failure \<open>SlackApiError\<close>.
\<close>

theorem post_message_unconfigured:
  assumes "env SLACK_TOKEN = None \<or> env SLACK_CHANNEL = None"
  shows "post_message env api text_arg =
           (Inl (SlackConfigurationError
                   (if env SLACK_TOKEN = None then UNSET_SLACK_TOKEN_MSG
                    else UNSET_SLACK_CHANNEL_MSG)), [])
         \<and> (\<forall>d. fst (post_message env api text_arg) \<noteq> Inl (SlackApiError d))"
  using assms
  by (auto simp: post_message_def get_slack_client_def get_slack_token_def
      get_slack_channel_name_def split: option.splits)

theorem post_message_unconfigured_witness:
  "post_message (Map.empty(SLACK_CHANNEL \<mapsto> ''alerts''))
       \<lparr>conversations_list = (\<lambda>t. Inl (SlackApiError ''down'')),
        chat_postMessage = (\<lambda>t c m. Inl (SlackApiError ''down''))\<rparr> ''hello''
     = (Inl (SlackConfigurationError UNSET_SLACK_TOKEN_MSG), [])
   \<and> post_message (Map.empty(SLACK_TOKEN \<mapsto> ''xoxb-1''))
       \<lparr>conversations_list = (\<lambda>t. Inl (SlackApiError ''down'')),
        chat_postMessage = (\<lambda>t c m. Inl (SlackApiError ''down''))\<rparr> ''hello''
     = (Inl (SlackConfigurationError UNSET_SLACK_CHANNEL_MSG), [])"
  using post_message_unconfigured
          [of "Map.empty(SLACK_CHANNEL \<mapsto> ''alerts'')"
              "\<lparr>conversations_list = (\<lambda>t. Inl (SlackApiError ''down'')),
                chat_postMessage = (\<lambda>t c m. Inl (SlackApiError ''down''))\<rparr>" "''hello''"]
        post_message_unconfigured
          [of "Map.empty(SLACK_TOKEN \<mapsto> ''xoxb-1'')"
              "\<lparr>conversations_list = (\<lambda>t. Inl (SlackApiError ''down'')),
                chat_postMessage = (\<lambda>t c m. Inl (SlackApiError ''down''))\<rparr>" "''hello''"]
  by (simp add: SLACK_TOKEN_def SLACK_CHANNEL_def)

text \<open>
  C10. \<open>is_channel_available\<close> does not raise on a missing configuration or on a Slack API
  failure: with either variable unset it logs the configuration error and returns \<open>False\<close>
  without a network call, and when the channel listing raises \<open>SlackApiError\<close> it logs that
  error and returns \<open>False\<close>; no exception that leaves it is one of these two kinds. It
  returns \<open>True\<close> only if both variables are set, the listing answered with status code 200
  and the listing holds a channel whose name is the configured channel name.
\<close>

theorem is_channel_available_safe:
  "((env SLACK_TOKEN = None \<or> env SLACK_CHANNEL = None) \<longrightarrow>
      is_channel_available env api =
        (Inr False, [],
         [LogError (SlackConfigurationError
            (if env SLACK_TOKEN = None then UNSET_SLACK_TOKEN_MSG else UNSET_SLACK_CHANNEL_MSG))]))
   \<and> (\<forall>tok ch d. env SLACK_TOKEN = Some tok \<and> env SLACK_CHANNEL = Some ch \<and>
          conversations_list api tok = Inl (SlackApiError d) \<longrightarrow>
      is_channel_available env api = (Inr False, [ConversationsList tok], [LogError (SlackApiError d)]))
   \<and> (\<forall>e. fst (is_channel_available env api) = Inl e \<longrightarrow>
          (\<forall>m. e \<noteq> SlackConfigurationError m) \<and> (\<forall>m. e \<noteq> SlackApiError m))
   \<and> (fst (is_channel_available env api) = Inr True \<longrightarrow>
        (\<exists>tok ch response channels.
            env SLACK_TOKEN = Some tok \<and> env SLACK_CHANNEL = Some ch \<and>
            conversations_list api tok = Inr response \<and> status_code response = 200 \<and>
            data_channels response = Some channels \<and>
            (\<exists>c \<in> set channels. map_of c ''name'' = Some ch)))"
proof (intro conjI impI allI)
  assume "env SLACK_TOKEN = None \<or> env SLACK_CHANNEL = None"
  then show "is_channel_available env api =
        (Inr False, [],
         [LogError (SlackConfigurationError
            (if env SLACK_TOKEN = None then UNSET_SLACK_TOKEN_MSG else UNSET_SLACK_CHANNEL_MSG))])"
    by (auto simp: is_channel_available_def get_slack_client_def get_slack_token_def
        get_slack_channel_name_def slack_handler_configuration split: option.splits)
next
  fix tok ch d
  assume "env SLACK_TOKEN = Some tok \<and> env SLACK_CHANNEL = Some ch \<and>
          conversations_list api tok = Inl (SlackApiError d)"
  then show "is_channel_available env api = (Inr False, [ConversationsList tok], [LogError (SlackApiError d)])"
    by (simp add: is_channel_available_def get_slack_client_def get_slack_token_def
        get_slack_channel_name_def slack_handler_api)
next
  fix e m
  assume "fst (is_channel_available env api) = Inl e"
  then have "\<exists>e0 calls. fst (slack_handler e0 calls) = Inl e"
    by (auto simp: is_channel_available_def split: sum.splits option.splits if_splits)
  then have *: "(\<forall>m. e \<noteq> SlackConfigurationError m) \<and> (\<forall>m. e \<noteq> SlackApiError m)"
    using slack_handler_raises by blast
  from * show "e \<noteq> SlackConfigurationError m" by blast
  from * show "e \<noteq> SlackApiError m" by blast
next
  assume "fst (is_channel_available env api) = Inr True"
  then show "\<exists>tok ch response channels.
            env SLACK_TOKEN = Some tok \<and> env SLACK_CHANNEL = Some ch \<and>
            conversations_list api tok = Inr response \<and> status_code response = 200 \<and>
            data_channels response = Some channels \<and>
            (\<exists>c \<in> set channels. map_of c ''name'' = Some ch)"
    using slack_handler_not_True find_channel_True
    by (auto simp: is_channel_available_def get_slack_client_def get_slack_token_def
        get_slack_channel_name_def split: sum.splits option.splits if_splits)
qed

theorem is_channel_available_safe_witness:
  "is_channel_available Map.empty
       \<lparr>conversations_list = (\<lambda>t. Inl (SlackApiError ''down'')),
        chat_postMessage = (\<lambda>t c m. Inl (SlackApiError ''down''))\<rparr>
     = (Inr False, [], [LogError (SlackConfigurationError UNSET_SLACK_TOKEN_MSG)])
   \<and> is_channel_available (Map.empty(SLACK_TOKEN \<mapsto> ''xoxb-1'', SLACK_CHANNEL \<mapsto> ''alerts''))
       \<lparr>conversations_list = (\<lambda>t. Inl (SlackApiError ''down'')),
        chat_postMessage = (\<lambda>t c m. Inl (SlackApiError ''down''))\<rparr>
     = (Inr False, [ConversationsList ''xoxb-1''], [LogError (SlackApiError ''down'')])
   \<and> fst (is_channel_available
            (Map.empty(SLACK_TOKEN \<mapsto> ''xoxb-1'', SLACK_CHANNEL \<mapsto> ''alerts''))
            \<lparr>conversations_list =
               (\<lambda>t. Inr \<lparr>status_code = 200,
                             data_channels = Some [[(''name'', ''general'')], [(''name'', ''alerts'')]]\<rparr>),
             chat_postMessage = (\<lambda>t c m. Inl (SlackApiError ''down''))\<rparr>) = Inr True
   \<and> (\<exists>tok ch response channels.
         (Map.empty(SLACK_TOKEN \<mapsto> ''xoxb-1'', SLACK_CHANNEL \<mapsto> ''alerts'')) SLACK_TOKEN = Some tok \<and>
         (Map.empty(SLACK_TOKEN \<mapsto> ''xoxb-1'', SLACK_CHANNEL \<mapsto> ''alerts'')) SLACK_CHANNEL = Some ch \<and>
         response = \<lparr>status_code = 200,
                      data_channels = Some [[(''name'', ''general'')], [(''name'', ''alerts'')]]\<rparr> \<and>
         status_code response = 200 \<and> data_channels response = Some channels \<and>
         (\<exists>c \<in> set channels. map_of c ''name'' = Some ch))"
proof -
  let ?down = "\<lparr>conversations_list = (\<lambda>t. Inl (SlackApiError ''down'')),
        chat_postMessage = (\<lambda>t c m. Inl (SlackApiError ''down''))\<rparr>"
  let ?env = "Map.empty(SLACK_TOKEN \<mapsto> ''xoxb-1'', SLACK_CHANNEL \<mapsto> ''alerts'')"
  let ?up = "\<lparr>conversations_list =
               (\<lambda>t. Inr \<lparr>status_code = 200,
                             data_channels = Some [[(''name'', ''general'')], [(''name'', ''alerts'')]]\<rparr>),
             chat_postMessage = (\<lambda>t c m. Inl (SlackApiError ''down''))\<rparr>"
  have t: "fst (is_channel_available ?env ?up) = Inr True"
    by (simp add: is_channel_available_def get_slack_client_def get_slack_token_def
        get_slack_channel_name_def SLACK_TOKEN_def SLACK_CHANNEL_def)
  show ?thesis
    using is_channel_available_safe [of Map.empty ?down]
      is_channel_available_safe [of ?env ?down]
      is_channel_available_safe [of ?env ?up] t
    by (simp add: SLACK_TOKEN_def SLACK_CHANNEL_def)
qed

section \<open>Properties of the table resolver\<close>

lemma table_ids_run_tables_query:
  "table_ids (map (\<lambda>t. [(TABLE_ID, t)]) ts) = Inr ts"
  by (induction ts) simp_all

lemma count_list_filter_le: "count_list (filter P xs) t \<le> count_list xs t"
  by (induction xs) auto

text \<open>
  C5. The claim asks that a failure of the metadata query be logged with the job identifier
  and re-raised unchanged. The code does not do so: when \<open>query_job.result()\<close> raises an
  exception of a class the handler catches (\<open>GoogleCloudError\<close>, \<open>TimeoutError\<close>,
  \<open>RuntimeError\<close>), the handler reads the unbound local \<open>result\<close>, so the function
  raises \<open>UnboundLocalError\<close>, nothing is logged and the engine's error is not the one
  the caller receives.
\<close>

theorem get_tables_in_dataset_result_raises:
  assumes "client (GET_ALL_TABLES_QUERY project dataset table_names) = Inr query_job"
    and "job_result query_job = Inl e"
    and "caught_by_get_tables e"
  shows "get_tables_in_dataset client project dataset table_names =
           (Inl (UnboundLocalError ''result''), [])"
  using assms by (simp add: get_tables_in_dataset_def get_tables_handler_def)

theorem get_tables_in_dataset_result_raises_witness:
  "get_tables_in_dataset
       (\<lambda>q. Inr \<lparr>job_id = ''job_1'', job_result = Inl (GoogleCloudError ''503 backend error''),
                  job_errors = None\<rparr>)
       ''project'' ''dataset'' [''person'']
     = (Inl (UnboundLocalError ''result''), [])
   \<and> get_tables_in_dataset
       (\<lambda>q. Inr \<lparr>job_id = ''job_2'', job_result = Inl (TimeoutError ''deadline exceeded''),
                  job_errors = None\<rparr>)
       ''project'' ''dataset'' [''person'']
     = (Inl (UnboundLocalError ''result''), [])"
  using get_tables_in_dataset_result_raises
          [of "\<lambda>q. Inr \<lparr>job_id = ''job_1'',
                           job_result = Inl (GoogleCloudError ''503 backend error''),
                           job_errors = None\<rparr>"
              "''project''" "''dataset''" "[''person'']"
              "\<lparr>job_id = ''job_1'', job_result = Inl (GoogleCloudError ''503 backend error''),
                job_errors = None\<rparr>"
              "GoogleCloudError ''503 backend error''"]
        get_tables_in_dataset_result_raises
          [of "\<lambda>q. Inr \<lparr>job_id = ''job_2'',
                           job_result = Inl (TimeoutError ''deadline exceeded''),
                           job_errors = None\<rparr>"
              "''project''" "''dataset''" "[''person'']"
              "\<lparr>job_id = ''job_2'', job_result = Inl (TimeoutError ''deadline exceeded''),
                job_errors = None\<rparr>"
              "TimeoutError ''deadline exceeded''"]
  by simp

text \<open>
  C6. The claim asks for a \<open>RuntimeError\<close> wrapping the embedded error detail when the
  job's \<open>result()\<close> returns without raising and \<open>query_job.errors\<close> is a non-empty list.
  The code does not raise it: the argument of \<open>RuntimeError\<close> is \<open>result.errors\<close>, read
  from the result object and not from the job, and the result object has no such
  attribute. The function raises \<open>AttributeError\<close>, which the handler does not catch:
  nothing is logged, no \<open>RuntimeError\<close> is raised and the job's errors are not reported.
\<close>

theorem get_tables_in_dataset_embedded_errors:
  assumes "client (GET_ALL_TABLES_QUERY project dataset table_names) = Inr query_job"
    and "job_result query_job = Inr result"
    and "job_errors query_job = Some errs"
    and "errs \<noteq> []"
  shows "get_tables_in_dataset client project dataset table_names =
           (Inl (AttributeError ''errors''), [])
         \<and> (\<forall>a. fst (get_tables_in_dataset client project dataset table_names)
                  \<noteq> Inl (RuntimeError a))"
  using assms by (simp add: get_tables_in_dataset_def get_tables_handler_def truthy_def)

theorem get_tables_in_dataset_embedded_errors_witness:
  "get_tables_in_dataset
       (\<lambda>q. Inr \<lparr>job_id = ''job_1'',
                  job_result = Inr \<lparr>it_rows = [[(''table_id'', ''person'')]],
                                     it_job_id = ''job_1''\<rparr>,
                  job_errors = Some [''invalidQuery'']\<rparr>)
       ''project'' ''dataset'' [''person'']
     = (Inl (AttributeError ''errors''), [])"
  using get_tables_in_dataset_embedded_errors
          [of "\<lambda>q. Inr \<lparr>job_id = ''job_1'',
                  job_result = Inr \<lparr>it_rows = [[(''table_id'', ''person'')]],
                                     it_job_id = ''job_1''\<rparr>,
                  job_errors = Some [''invalidQuery'']\<rparr>"
              "''project''" "''dataset''" "[''person'']"
              "\<lparr>job_id = ''job_1'',
                  job_result = Inr \<lparr>it_rows = [[(''table_id'', ''person'')]],
                                     it_job_id = ''job_1''\<rparr>,
                  job_errors = Some [''invalidQuery'']\<rparr>"
              "\<lparr>it_rows = [[(''table_id'', ''person'')]], it_job_id = ''job_1''\<rparr>"
              "[''invalidQuery'']"]
  by simp

text \<open>
  C7. With a query engine that answers the metadata query as SQL reads it (the rows are the
  \<open>table_id\<close>s of the dataset's \<open>__TABLES__\<close> that are among the candidates), whatever
  \<open>get_tables_in_dataset\<close> returns is a subset of the candidate list \<open>table_names\<close>, and
  a name occurs in it as often as the metadata listing has it, never more; and when the
  job reports no errors the function does return, with the candidates the listing holds.
\<close>

theorem get_tables_in_dataset_subset:
  assumes "client (GET_ALL_TABLES_QUERY project dataset table_names) = Inr query_job"
    and "job_result query_job = Inr result"
    and "it_rows result =
           run_tables_query tables (GET_ALL_TABLES_QUERY project dataset table_names)"
  shows "(\<forall>names log. get_tables_in_dataset client project dataset table_names = (Inr names, log)
            \<longrightarrow> set names \<subseteq> set table_names
              \<and> (\<forall>t. count_list names t \<le> count_list (tables project dataset) t)
              \<and> (distinct (tables project dataset) \<longrightarrow> distinct names))
         \<and> (\<not> truthy (job_errors query_job) \<longrightarrow>
              get_tables_in_dataset client project dataset table_names =
                (Inr (filter (\<lambda>t. t \<in> set table_names) (tables project dataset)), []))"
proof -
  let ?out = "filter (\<lambda>t. t \<in> set table_names) (tables project dataset)"
  have ids: "table_ids (it_rows result) = Inr ?out"
    using assms(3) by (simp add: run_tables_query_def GET_ALL_TABLES_QUERY_def
        table_ids_run_tables_query)
  have run: "\<not> truthy (job_errors query_job) \<Longrightarrow>
      get_tables_in_dataset client project dataset table_names = (Inr ?out, [])"
    using assms(1,2) ids by (simp add: get_tables_in_dataset_def)
  have only: "names = ?out"
    if "get_tables_in_dataset client project dataset table_names = (Inr names, log)"
    for names log
    using that assms(1,2) ids
    by (auto simp: get_tables_in_dataset_def get_tables_handler_def split: if_splits)
  have cnt: "count_list ?out t \<le> count_list (tables project dataset) t" for t
    by (rule count_list_filter_le)
  show ?thesis
  proof (intro conjI allI impI)
    fix names log t
    assume r: "get_tables_in_dataset client project dataset table_names = (Inr names, log)"
    have eq: "names = ?out" by (rule only [OF r])
    show "set names \<subseteq> set table_names" unfolding eq by auto
    show "count_list names t \<le> count_list (tables project dataset) t"
      unfolding eq by (rule cnt)
    assume "distinct (tables project dataset)"
    then show "distinct names" unfolding eq by simp
  next
    assume "\<not> truthy (job_errors query_job)"
    then show "get_tables_in_dataset client project dataset table_names = (Inr ?out, [])"
      by (rule run)
  qed
qed

theorem get_tables_in_dataset_subset_witness:
  "get_tables_in_dataset
       (\<lambda>q. Inr \<lparr>job_id = ''job_1'',
                  job_result = Inr \<lparr>it_rows = [[(''table_id'', ''person'')]],
                                     it_job_id = ''job_1''\<rparr>,
                  job_errors = None\<rparr>)
       ''project'' ''dataset'' [''person'', ''measurement'']
     = (Inr [''person''], [])
   \<and> set [''person''] \<subseteq> set [''person'', ''measurement'']
   \<and> count_list [''person''] ''person'' \<le> count_list [''observation'', ''person'', ''death''] ''person''"
proof -
  let ?result = "\<lparr>it_rows = [[(''table_id'', ''person'')]], it_job_id = ''job_1''\<rparr>"
  let ?job = "\<lparr>job_id = ''job_1'', job_result = Inr ?result, job_errors = None\<rparr>"
  have rows: "it_rows ?result =
      run_tables_query (\<lambda>p d. [''observation'', ''person'', ''death''])
        (GET_ALL_TABLES_QUERY ''project'' ''dataset'' [''person'', ''measurement''])"
    by (simp add: run_tables_query_def GET_ALL_TABLES_QUERY_def TABLE_ID_def)
  show ?thesis
    using get_tables_in_dataset_subset
            [of "\<lambda>q. Inr ?job" "''project''" "''dataset''" "[''person'', ''measurement'']"
                ?job ?result "\<lambda>p d. [''observation'', ''person'', ''death'']", OF refl _ rows]
    by (simp add: truthy_def)
qed

section \<open>Properties of the queries\<close>

lemma left_join_nonempty: "left_join v ks \<noteq> []"
  by (simp add: left_join_def Let_def)

lemma left_join_match:
  "m \<in> set (left_join v ks) \<and> m \<noteq> NULL \<longleftrightarrow> m \<in> set ks \<and> sql_eq v m"
  by (auto simp: left_join_def Let_def sql_eq_def filter_empty_conv)

lemma left_join_unmatched:
  "filter (\<lambda>m. m = NULL) (left_join v ks) = (if \<exists>k \<in> set ks. sql_eq v k then [] else [NULL])"
proof -
  have "filter (\<lambda>m. m = NULL) (filter (sql_eq v) ks) = []"
    by (auto simp: filter_empty_conv sql_eq_def)
  then show ?thesis
    by (auto simp: left_join_def Let_def filter_empty_conv)
qed

lemma joined_nonempty: "joined ks fs d \<noteq> []"
  by (induction fs) (auto simp: left_join_nonempty)

lemma coalesce_Cons: "coalesce (m # rest) \<noteq> NULL \<longleftrightarrow> m \<noteq> NULL \<or> coalesce rest \<noteq> NULL"
  by simp

lemma joined_coalesce:
  "(\<exists>j \<in> set (joined ks fs d). coalesce j \<noteq> NULL) \<longleftrightarrow>
   (\<exists>f \<in> set fs. \<exists>k \<in> set ks. sql_eq (col d f) k)"
proof (induction fs)
  case Nil
  then show ?case by simp
next
  case (Cons f fs)
  have ne1: "\<exists>m. m \<in> set (left_join (col d f) ks)"
    using left_join_nonempty [of "col d f" ks] by (cases "left_join (col d f) ks") auto
  have ne2: "\<exists>j. j \<in> set (joined ks fs d)"
    using joined_nonempty [of ks fs d] by (cases "joined ks fs d") auto
  have "(\<exists>j \<in> set (joined ks (f # fs) d). coalesce j \<noteq> NULL) \<longleftrightarrow>
        (\<exists>m \<in> set (left_join (col d f) ks). \<exists>rest \<in> set (joined ks fs d).
            m \<noteq> NULL \<or> coalesce rest \<noteq> NULL)"
    by auto
  also have "\<dots> \<longleftrightarrow> (\<exists>m \<in> set (left_join (col d f) ks). m \<noteq> NULL) \<or>
                        (\<exists>rest \<in> set (joined ks fs d). coalesce rest \<noteq> NULL)"
    using ne1 ne2 by blast
  also have "\<dots> \<longleftrightarrow> (\<exists>k \<in> set ks. sql_eq (col d f) k) \<or>
                        (\<exists>f \<in> set fs. \<exists>k \<in> set ks. sql_eq (col d f) k)"
    using left_join_match [of _ "col d f" ks] Cons.IH by blast
  finally show ?case by auto
qed

lemma set_select_sandbox:
  "set (select_sandbox ks fs rows) =
     {d \<in> set rows. \<exists>f \<in> set fs. \<exists>k \<in> set ks. sql_eq (col d f) k}"
proof -
  have "d \<in> set (select_sandbox ks fs rows) \<longleftrightarrow>
        d \<in> set rows \<and> (\<exists>j \<in> set (joined ks fs d). coalesce j \<noteq> NULL)" for d
    by (auto simp: select_sandbox_def)
  then show ?thesis using joined_coalesce by blast
qed

lemma select_not_sandboxed_filter:
  "select_not_sandboxed id_col sandbox rows =
     filter (\<lambda>d. \<not> (\<exists>s \<in> set sandbox. sql_eq (col d id_col) (col s id_col))) rows"
  by (induction rows) (auto simp: select_not_sandboxed_def left_join_unmatched)

lemma filter_eq_le_one: "distinct xs \<Longrightarrow> length (filter (\<lambda>k. k = v) xs) \<le> 1"
  by (induction xs) (auto simp: filter_empty_conv)

lemma left_join_single:
  assumes "distinct (filter (\<lambda>k. k \<noteq> NULL) ks)"
  shows "\<exists>m. left_join v ks = [m]"
proof (cases "v = NULL")
  case True
  then have "filter (sql_eq v) ks = []" by (simp add: sql_eq_def)
  then show ?thesis by (simp add: left_join_def)
next
  case False
  then have "filter (sql_eq v) ks = filter (\<lambda>k. k = v) (filter (\<lambda>k. k \<noteq> NULL) ks)"
    by (auto simp: sql_eq_def intro: filter_cong)
  then have "length (filter (sql_eq v) ks) \<le> 1"
    using filter_eq_le_one [OF assms, of v] by simp
  then show ?thesis
    by (cases "filter (sql_eq v) ks") (auto simp: left_join_def Let_def)
qed

lemma joined_single:
  assumes "distinct (filter (\<lambda>k. k \<noteq> NULL) ks)"
  shows "\<exists>j. joined ks fs d = [j]"
proof (induction fs)
  case Nil
  then show ?case by simp
next
  case (Cons f fs)
  obtain m where "left_join (col d f) ks = [m]" using left_join_single [OF assms] by blast
  moreover obtain j where "joined ks fs d = [j]" using Cons.IH by blast
  ultimately show ?case by simp
qed

lemma select_sandbox_filter:
  assumes "distinct (filter (\<lambda>k. k \<noteq> NULL) ks)"
  shows "select_sandbox ks fs rows =
           filter (\<lambda>d. \<exists>f \<in> set fs. \<exists>k \<in> set ks. sql_eq (col d f) k) rows"
proof (induction rows)
  case Nil
  then show ?case by (simp add: select_sandbox_def)
next
  case (Cons d rows)
  obtain j where j: "joined ks fs d = [j]" using joined_single [OF assms] by blast
  have "coalesce j \<noteq> NULL \<longleftrightarrow> (\<exists>f \<in> set fs. \<exists>k \<in> set ks. sql_eq (col d f) k)"
    using joined_coalesce [of ks fs d] j by simp
  with j Cons.IH show ?case by (simp add: select_sandbox_def)
qed

lemma select_sandbox_empty: "select_sandbox [] fs rows = []"
proof -
  have "set (select_sandbox [] fs rows) = {}" by (simp add: set_select_sandbox)
  then show ?thesis by simp
qed

lemma sql_eq_in_map:
  "(\<exists>k \<in> set (map g xs). sql_eq a k) \<longleftrightarrow> (\<exists>s \<in> set xs. a \<noteq> NULL \<and> a = g s)"
  by (auto simp: sql_eq_def)

lemma sql_eq_in_INT64:
  "(\<exists>k \<in> set (map INT64 cs). sql_eq a k) \<longleftrightarrow> (\<exists>c \<in> set cs. a = INT64 c)"
  by (auto simp: sql_eq_def)

text \<open>
  C1. For a table with at least one concept-id column, the sandbox query of either strategy
  runs and selects exactly the rows of the table in which some concept-id column equals a
  denylisted concept identifier (a match in any one column suffices): the identifiers in
  the \<open>concept_id\<close> column of the lookup table for the lookup-table rule, the inlined
  list for the in-memory rule. A denylist without repeated identifiers returns each such
  row once, in the table's order (a repeated identifier returns a matching row once per
  repetition, the join pairing it with each copy). An empty denylist selects no rows.
\<close>

theorem sandbox_query_selects_matching_rows:
  assumes "get_concept_id_fields res table_name \<noteq> []"
  shows "(\<forall>rows lookup.
            db (project_id r, dataset_id r, table_name) = Some rows \<and>
            db (project_id r, sandbox_dataset_id r, concept_suppression_lookup_table r) = Some lookup
            \<longrightarrow> (\<exists>out. run_query db (QUERY (bq_lookup_get_sandbox_query res r table_name)) = Some out
                   \<and> set out =
                       {d \<in> set rows. \<exists>f \<in> set (get_concept_id_fields res table_name).
                          \<exists>s \<in> set lookup. col d f \<noteq> NULL \<and> col d f = col s ''concept_id''}
                   \<and> (distinct (filter (\<lambda>k. k \<noteq> NULL) (map (\<lambda>s. col s ''concept_id'') lookup))
                        \<longrightarrow> out = filter (\<lambda>d. \<exists>f \<in> set (get_concept_id_fields res table_name).
                                \<exists>s \<in> set lookup. col d f \<noteq> NULL \<and> col d f = col s ''concept_id'') rows)
                   \<and> (lookup = [] \<longrightarrow> out = [])))
       \<and> (\<forall>rows.
            db (project_id m, dataset_id m, table_name) = Some rows
            \<longrightarrow> (\<exists>out. run_query db (QUERY (in_memory_get_sandbox_query res m table_name)) = Some out
                   \<and> set out =
                       {d \<in> set rows. \<exists>f \<in> set (get_concept_id_fields res table_name).
                          \<exists>c \<in> set (get_suppressed_concept_ids m). col d f = INT64 c}
                   \<and> (distinct (get_suppressed_concept_ids m)
                        \<longrightarrow> out = filter (\<lambda>d. \<exists>f \<in> set (get_concept_id_fields res table_name).
                                \<exists>c \<in> set (get_suppressed_concept_ids m). col d f = INT64 c) rows)
                   \<and> (get_suppressed_concept_ids m = [] \<longrightarrow> out = [])))"
proof (intro conjI allI impI)
  fix rows lookup
  assume h: "db (project_id r, dataset_id r, table_name) = Some rows \<and>
            db (project_id r, sandbox_dataset_id r, concept_suppression_lookup_table r) = Some lookup"
  let ?ks = "map (\<lambda>s. col s ''concept_id'') lookup"
  let ?fs = "get_concept_id_fields res table_name"
  have run: "run_query db (QUERY (bq_lookup_get_sandbox_query res r table_name)) =
               Some (select_sandbox ?ks ?fs rows)"
    using assms h by (simp add: bq_lookup_get_sandbox_query_def)
  have P: "(\<exists>f \<in> set ?fs. \<exists>k \<in> set ?ks. sql_eq (col d f) k) \<longleftrightarrow>
           (\<exists>f \<in> set ?fs. \<exists>s \<in> set lookup. col d f \<noteq> NULL \<and> col d f = col s ''concept_id'')" for d
    by (simp only: sql_eq_in_map)
  have s: "set (select_sandbox ?ks ?fs rows) =
             {d \<in> set rows. \<exists>f \<in> set ?fs. \<exists>s \<in> set lookup.
                col d f \<noteq> NULL \<and> col d f = col s ''concept_id''}"
    unfolding set_select_sandbox using P by blast
  have l: "distinct (filter (\<lambda>k. k \<noteq> NULL) ?ks) \<Longrightarrow>
           select_sandbox ?ks ?fs rows =
             filter (\<lambda>d. \<exists>f \<in> set ?fs. \<exists>s \<in> set lookup.
                col d f \<noteq> NULL \<and> col d f = col s ''concept_id'') rows"
    using select_sandbox_filter [of ?ks ?fs rows] P by simp
  have e: "lookup = [] \<Longrightarrow> select_sandbox ?ks ?fs rows = []"
    by (simp add: select_sandbox_empty)
  show "\<exists>out. run_query db (QUERY (bq_lookup_get_sandbox_query res r table_name)) = Some out
                   \<and> set out =
                       {d \<in> set rows. \<exists>f \<in> set (get_concept_id_fields res table_name).
                          \<exists>s \<in> set lookup. col d f \<noteq> NULL \<and> col d f = col s ''concept_id''}
                   \<and> (distinct (filter (\<lambda>k. k \<noteq> NULL) (map (\<lambda>s. col s ''concept_id'') lookup))
                        \<longrightarrow> out = filter (\<lambda>d. \<exists>f \<in> set (get_concept_id_fields res table_name).
                                \<exists>s \<in> set lookup. col d f \<noteq> NULL \<and> col d f = col s ''concept_id'') rows)
                   \<and> (lookup = [] \<longrightarrow> out = [])"
    using run s l e by blast
next
  fix rows
  assume h: "db (project_id m, dataset_id m, table_name) = Some rows"
  let ?ks = "map INT64 (get_suppressed_concept_ids m)"
  let ?fs = "get_concept_id_fields res table_name"
  have run: "run_query db (QUERY (in_memory_get_sandbox_query res m table_name)) =
               Some (select_sandbox ?ks ?fs rows)"
    using assms h by (simp add: in_memory_get_sandbox_query_def)
  have P: "(\<exists>f \<in> set ?fs. \<exists>k \<in> set ?ks. sql_eq (col d f) k) \<longleftrightarrow>
           (\<exists>f \<in> set ?fs. \<exists>c \<in> set (get_suppressed_concept_ids m). col d f = INT64 c)" for d
    by (simp only: sql_eq_in_INT64)
  have s: "set (select_sandbox ?ks ?fs rows) =
             {d \<in> set rows. \<exists>f \<in> set ?fs. \<exists>c \<in> set (get_suppressed_concept_ids m).
                col d f = INT64 c}"
    unfolding set_select_sandbox using P by blast
  have d: "distinct (get_suppressed_concept_ids m) \<Longrightarrow> distinct (filter (\<lambda>k. k \<noteq> NULL) ?ks)"
    by (simp add: distinct_map inj_on_def)
  have l: "distinct (get_suppressed_concept_ids m) \<Longrightarrow>
           select_sandbox ?ks ?fs rows =
             filter (\<lambda>d. \<exists>f \<in> set ?fs. \<exists>c \<in> set (get_suppressed_concept_ids m).
                col d f = INT64 c) rows"
    using select_sandbox_filter [OF d, of ?fs rows] P by simp
  have e: "get_suppressed_concept_ids m = [] \<Longrightarrow> select_sandbox ?ks ?fs rows = []"
    by (simp add: select_sandbox_empty)
  show "\<exists>out. run_query db (QUERY (in_memory_get_sandbox_query res m table_name)) = Some out
                   \<and> set out =
                       {d \<in> set rows. \<exists>f \<in> set (get_concept_id_fields res table_name).
                          \<exists>c \<in> set (get_suppressed_concept_ids m). col d f = INT64 c}
                   \<and> (distinct (get_suppressed_concept_ids m)
                        \<longrightarrow> out = filter (\<lambda>d. \<exists>f \<in> set (get_concept_id_fields res table_name).
                                \<exists>c \<in> set (get_suppressed_concept_ids m). col d f = INT64 c) rows)
                   \<and> (get_suppressed_concept_ids m = [] \<longrightarrow> out = [])"
    using run s l e by blast
qed

text \<open>
  C4. \<open>get_suppression_query\<close> for a table \<open>t\<close> returns a QuerySpec whose query keeps
  exactly the rows of the original table whose \<open>t_id\<close> equals the \<open>t_id\<close> of no row of
  the sandbox table of \<open>t\<close> (SQL equality: a NULL identifier equals nothing, so such a row
  is kept; with identifiers that are never NULL this is plain absence of the identifier
  from the sandbox table), and whose destination is the table \<open>t\<close> in the rule's dataset
  with disposition \<open>WRITE_TRUNCATE\<close>.
\<close>

theorem suppression_query_keeps_unsandboxed_rows:
  assumes "db (project_id r, dataset_id r, table_name) = Some rows"
    and "db (project_id r, sandbox_dataset_id r, sandbox_table_for res table_name) = Some sandbox"
  shows "run_query db (QUERY (get_suppression_query res r table_name)) =
           Some (filter (\<lambda>d. \<not> (\<exists>s \<in> set sandbox.
                                  col d (table_name @ ''_id'') \<noteq> NULL \<and>
                                  col d (table_name @ ''_id'') = col s (table_name @ ''_id''))) rows)
         \<and> ((\<forall>d \<in> set rows. col d (table_name @ ''_id'') \<noteq> NULL) \<longrightarrow>
              run_query db (QUERY (get_suppression_query res r table_name)) =
                Some (filter (\<lambda>d. col d (table_name @ ''_id'') \<notin>
                                     (\<lambda>s. col s (table_name @ ''_id'')) ` set sandbox) rows))
         \<and> DESTINATION_DATASET (get_suppression_query res r table_name) = Some (dataset_id r)
         \<and> DESTINATION_TABLE (get_suppression_query res r table_name) = Some table_name
         \<and> DISPOSITION (get_suppression_query res r table_name) = Some WRITE_TRUNCATE"
proof -
  let ?id = "table_name @ ''_id''"
  have P: "(\<exists>s \<in> set sandbox. sql_eq (col d ?id) (col s ?id)) \<longleftrightarrow>
           (\<exists>s \<in> set sandbox. col d ?id \<noteq> NULL \<and> col d ?id = col s ?id)" for d
    by (auto simp: sql_eq_def)
  have run: "run_query db (QUERY (get_suppression_query res r table_name)) =
               Some (filter (\<lambda>d. \<not> (\<exists>s \<in> set sandbox.
                                  col d ?id \<noteq> NULL \<and> col d ?id = col s ?id)) rows)"
    using assms by (simp add: get_suppression_query_def select_not_sandboxed_filter P)
  have nn: "filter (\<lambda>d. \<not> (\<exists>s \<in> set sandbox. col d ?id \<noteq> NULL \<and> col d ?id = col s ?id)) rows =
            filter (\<lambda>d. col d ?id \<notin> (\<lambda>s. col s ?id) ` set sandbox) rows"
    if "\<forall>d \<in> set rows. col d ?id \<noteq> NULL"
    using that by (intro filter_cong) auto
  show ?thesis
    using run nn by (simp add: get_suppression_query_def)
qed

text \<open>
  C8. Two rules over the same project, dataset and sandbox dataset, one reading a lookup
  table and one holding an in-memory list: when the lookup table holds exactly the concept
  identifiers that \<open>get_suppressed_concept_ids\<close> returns, their sandbox queries for a
  table select the same set of rows (and are accepted or rejected together), and their
  QuerySpecs have the same destination table, destination dataset and write disposition.
\<close>

theorem sandbox_queries_agree:
  assumes "project_id m = project_id r"
    and "dataset_id m = dataset_id r"
    and "sandbox_dataset_id m = sandbox_dataset_id r"
    and "db (project_id r, sandbox_dataset_id r, concept_suppression_lookup_table r) = Some lookup"
    and "{k \<in> set (map (\<lambda>s. col s ''concept_id'') lookup). k \<noteq> NULL} =
           INT64 ` set (get_suppressed_concept_ids m)"
  shows "map_option set (run_query db (QUERY (bq_lookup_get_sandbox_query res r table_name))) =
         map_option set (run_query db (QUERY (in_memory_get_sandbox_query res m table_name)))
       \<and> (get_concept_id_fields res table_name \<noteq> [] \<and>
            db (project_id r, dataset_id r, table_name) \<noteq> None \<longrightarrow>
            run_query db (QUERY (bq_lookup_get_sandbox_query res r table_name)) \<noteq> None)
       \<and> DESTINATION_TABLE (bq_lookup_get_sandbox_query res r table_name) =
           DESTINATION_TABLE (in_memory_get_sandbox_query res m table_name)
       \<and> DESTINATION_DATASET (bq_lookup_get_sandbox_query res r table_name) =
           DESTINATION_DATASET (in_memory_get_sandbox_query res m table_name)
       \<and> DISPOSITION (bq_lookup_get_sandbox_query res r table_name) =
           DISPOSITION (in_memory_get_sandbox_query res m table_name)"
proof -
  let ?ks = "map (\<lambda>s. col s ''concept_id'') lookup"
  let ?cs = "map INT64 (get_suppressed_concept_ids m)"
  have eqv: "(\<exists>k \<in> set ?ks. sql_eq a k) \<longleftrightarrow> (\<exists>k \<in> set ?cs. sql_eq a k)" for a
  proof -
    have "(\<exists>k \<in> set ?ks. sql_eq a k) \<longleftrightarrow> (\<exists>k \<in> {k \<in> set ?ks. k \<noteq> NULL}. sql_eq a k)"
      by (auto simp: sql_eq_def)
    also have "\<dots> \<longleftrightarrow> (\<exists>k \<in> INT64 ` set (get_suppressed_concept_ids m). sql_eq a k)"
      using assms(5) by simp
    finally show ?thesis by simp
  qed
  have sets: "set (select_sandbox ?ks fs rows) = set (select_sandbox ?cs fs rows)" for fs rows
    unfolding set_select_sandbox using eqv by simp
  have "map_option set (run_query db (QUERY (bq_lookup_get_sandbox_query res r table_name))) =
         map_option set (run_query db (QUERY (in_memory_get_sandbox_query res m table_name)))"
    using assms(1-4) sets
    by (simp add: bq_lookup_get_sandbox_query_def in_memory_get_sandbox_query_def
        split: option.splits)
  moreover have "get_concept_id_fields res table_name \<noteq> [] \<and>
            db (project_id r, dataset_id r, table_name) \<noteq> None \<longrightarrow>
            run_query db (QUERY (bq_lookup_get_sandbox_query res r table_name)) \<noteq> None"
    using assms(4) by (auto simp: bq_lookup_get_sandbox_query_def)
  ultimately show ?thesis
    using assms(3)
    by (simp add: bq_lookup_get_sandbox_query_def in_memory_get_sandbox_query_def)
qed

text \<open>
  C2. For a rule whose affected tables are \<open>T\<close>, \<open>get_query_specs\<close> returns
  at least \<open>3 * |T|\<close> specs: first the sandbox specs, one per table in the order of \<open>T\<close>,
  then the suppression specs, one per table in the order of \<open>T\<close>, then the cleanup specs of
  the sandbox tables. The first two groups are those of \<open>get_query_specs\<close> itself; the
  length of the third is that of the cleanup helper as the specification describes it.
\<close>

theorem get_query_specs_grouped:
  "3 * length (affected_tables r) \<le> length (get_query_specs get_sandbox_query res r)
   \<and> length (get_query_specs get_sandbox_query res r) = 3 * length (affected_tables r)
   \<and> take (length (affected_tables r)) (get_query_specs get_sandbox_query res r)
       = map get_sandbox_query (affected_tables r)
   \<and> take (length (affected_tables r))
        (drop (length (affected_tables r)) (get_query_specs get_sandbox_query res r))
       = map (get_suppression_query res r) (affected_tables r)
   \<and> drop (2 * length (affected_tables r)) (get_query_specs get_sandbox_query res r)
       = get_delete_empty_sandbox_tables_queries (project_id r) (sandbox_dataset_id r)
           (map (sandbox_table_for res) (affected_tables r))
   \<and> map QUERY (drop (2 * length (affected_tables r)) (get_query_specs get_sandbox_query res r))
       = map (\<lambda>t. DROP_EMPTY_SANDBOX_TABLE_QUERY (project_id r) (sandbox_dataset_id r)
                     (sandbox_table_for res t)) (affected_tables r)"
  by (simp add: get_query_specs_def Let_def get_delete_empty_sandbox_tables_queries_def
      get_sandbox_tablenames_def comp_def)

text \<open>
  C3. After construction, \<open>affected_tables\<close> holds exactly the input tables, in input
  order, that have at least one concept-id column and a per-row identifier column; the
  constructor returns a rule for every input (nothing is raised for a dropped table). The
  dropped tables produce no query: every spec of the plan of the constructed rule is the
  sandbox spec, the suppression spec or the cleanup spec of a kept table, and no
  suppression or cleanup spec has a dropped table as its destination.
\<close>

theorem init_filters_affected_tables:
  "affected_tables (AbstractConceptSuppression_init res project dataset sandbox_dataset issues
                      descr datasets tables)
     = filter (\<lambda>t. get_concept_id_fields res t \<noteq> [] \<and> has_domain_table_id res t) tables
   \<and> (\<forall>t. t \<in> set (affected_tables (AbstractConceptSuppression_init res project dataset
                         sandbox_dataset issues descr datasets tables))
          \<longleftrightarrow> t \<in> set tables \<and> get_concept_id_fields res t \<noteq> [] \<and> has_domain_table_id res t)
   \<and> (\<forall>spec \<in> set (get_query_specs get_sandbox_query res
                        (AbstractConceptSuppression_init res project dataset sandbox_dataset
                           issues descr datasets tables)).
        \<exists>t \<in> set tables.
          get_concept_id_fields res t \<noteq> [] \<and> has_domain_table_id res t \<and>
          (spec = get_sandbox_query t
           \<or> spec = get_suppression_query res
                      (AbstractConceptSuppression_init res project dataset sandbox_dataset
                         issues descr datasets tables) t
           \<or> spec = \<lparr>QUERY = DROP_EMPTY_SANDBOX_TABLE_QUERY project sandbox_dataset
                                (sandbox_table_for res t),
                      DESTINATION_DATASET = None, DESTINATION_TABLE = None,
                      DISPOSITION = None\<rparr>))
   \<and> (\<forall>t. \<not> (get_concept_id_fields res t \<noteq> [] \<and> has_domain_table_id res t) \<longrightarrow>
          (\<forall>spec \<in> set (drop (length (affected_tables
                                 (AbstractConceptSuppression_init res project dataset
                                    sandbox_dataset issues descr datasets tables)))
                           (get_query_specs get_sandbox_query res
                              (AbstractConceptSuppression_init res project dataset sandbox_dataset
                                 issues descr datasets tables))).
             DESTINATION_TABLE spec \<noteq> Some t))"
proof -
  let ?P = "\<lambda>t. get_concept_id_fields res t \<noteq> [] \<and> has_domain_table_id res t"
  let ?R = "AbstractConceptSuppression_init res project dataset sandbox_dataset issues
              descr datasets tables"
  have at: "affected_tables ?R = filter ?P tables"
    by (simp add: AbstractConceptSuppression_init_def)
  have pr: "project_id ?R = project" "sandbox_dataset_id ?R = sandbox_dataset"
    by (simp_all add: AbstractConceptSuppression_init_def)
  have specs: "get_query_specs get_sandbox_query res ?R =
      map get_sandbox_query (filter ?P tables)
      @ map (get_suppression_query res ?R) (filter ?P tables)
      @ map (\<lambda>t. \<lparr>QUERY = DROP_EMPTY_SANDBOX_TABLE_QUERY project sandbox_dataset
                               (sandbox_table_for res t),
                    DESTINATION_DATASET = None, DESTINATION_TABLE = None,
                    DISPOSITION = None\<rparr>) (filter ?P tables)"
    unfolding get_query_specs_def Let_def at pr get_sandbox_tablenames_def
      get_delete_empty_sandbox_tables_queries_def
    by (simp add: comp_def)
  have c2: "\<forall>t. t \<in> set (affected_tables ?R) \<longleftrightarrow> t \<in> set tables \<and> ?P t"
    unfolding at by auto
  have c3: "\<forall>spec \<in> set (get_query_specs get_sandbox_query res ?R).
        \<exists>t \<in> set tables. get_concept_id_fields res t \<noteq> [] \<and> has_domain_table_id res t \<and>
          (spec = get_sandbox_query t \<or> spec = get_suppression_query res ?R t
           \<or> spec = \<lparr>QUERY = DROP_EMPTY_SANDBOX_TABLE_QUERY project sandbox_dataset
                                (sandbox_table_for res t),
                      DESTINATION_DATASET = None, DESTINATION_TABLE = None,
                      DISPOSITION = None\<rparr>)"
    unfolding specs by auto
  have dr: "drop (length (affected_tables ?R)) (get_query_specs get_sandbox_query res ?R) =
      map (get_suppression_query res ?R) (filter ?P tables)
      @ map (\<lambda>t. \<lparr>QUERY = DROP_EMPTY_SANDBOX_TABLE_QUERY project sandbox_dataset
                               (sandbox_table_for res t),
                    DESTINATION_DATASET = None, DESTINATION_TABLE = None,
                    DISPOSITION = None\<rparr>) (filter ?P tables)"
    unfolding specs at by simp
  have c4: "\<forall>t. \<not> ?P t \<longrightarrow>
          (\<forall>spec \<in> set (drop (length (affected_tables ?R))
                           (get_query_specs get_sandbox_query res ?R)).
             DESTINATION_TABLE spec \<noteq> Some t)"
    unfolding dr by (auto simp: get_suppression_query_def)
  show ?thesis using at c2 c3 c4 by blast
qed

theorem sandbox_query_selects_matching_rows_witness:
  "run_query example_database
       (QUERY (bq_lookup_get_sandbox_query example_imported example_bq_lookup_rule ''observation''))
     = Some [example_observation_1]
   \<and> run_query example_database
       (QUERY (in_memory_get_sandbox_query example_imported example_in_memory_rule ''observation''))
     = Some [example_observation_1]
   \<and> run_query example_database
       (QUERY (in_memory_get_sandbox_query example_imported
                 (example_in_memory_rule\<lparr>get_suppressed_concept_ids := []\<rparr>) ''observation''))
     = Some []"
proof -
  have fs: "get_concept_id_fields example_imported ''observation'' \<noteq> []"
    by (simp add: example_imported_def)
  have a: "run_query example_database
       (QUERY (bq_lookup_get_sandbox_query example_imported example_bq_lookup_rule ''observation''))
     = Some [example_observation_1]"
    using sandbox_query_selects_matching_rows
            [OF fs, of example_database example_bq_lookup_rule example_in_memory_rule]
    by (simp add: example_database_def example_bq_lookup_rule_def example_in_memory_rule_def
        example_imported_def example_observation_1_def example_observation_2_def col_def)
  have b: "run_query example_database
       (QUERY (in_memory_get_sandbox_query example_imported example_in_memory_rule ''observation''))
     = Some [example_observation_1]"
    using sandbox_query_selects_matching_rows
            [OF fs, of example_database example_bq_lookup_rule example_in_memory_rule]
    by (simp add: example_database_def example_bq_lookup_rule_def example_in_memory_rule_def
        example_imported_def example_observation_1_def example_observation_2_def col_def)
  have c: "run_query example_database
       (QUERY (in_memory_get_sandbox_query example_imported
                 (example_in_memory_rule\<lparr>get_suppressed_concept_ids := []\<rparr>) ''observation''))
     = Some []"
    using sandbox_query_selects_matching_rows
            [OF fs, of example_database example_bq_lookup_rule
               "example_in_memory_rule\<lparr>get_suppressed_concept_ids := []\<rparr>"]
    by (simp add: example_database_def example_in_memory_rule_def)
  show ?thesis using a b c by simp
qed

theorem suppression_query_keeps_unsandboxed_rows_witness:
  "run_query example_database
       (QUERY (get_suppression_query example_imported example_bq_lookup_rule ''observation''))
     = Some [example_observation_2]
   \<and> DESTINATION_DATASET (get_suppression_query example_imported example_bq_lookup_rule ''observation'')
     = Some ''dataset''
   \<and> DESTINATION_TABLE (get_suppression_query example_imported example_bq_lookup_rule ''observation'')
     = Some ''observation''
   \<and> DISPOSITION (get_suppression_query example_imported example_bq_lookup_rule ''observation'')
     = Some WRITE_TRUNCATE"
proof -
  have t: "example_database (project_id example_bq_lookup_rule, dataset_id example_bq_lookup_rule,
             ''observation'') = Some [example_observation_1, example_observation_2]"
    by (simp add: example_database_def example_bq_lookup_rule_def)
  have sb: "example_database (project_id example_bq_lookup_rule,
             sandbox_dataset_id example_bq_lookup_rule,
             sandbox_table_for example_imported ''observation'') = Some [example_observation_1]"
    by (simp add: example_database_def example_bq_lookup_rule_def example_imported_def)
  show ?thesis
    using suppression_query_keeps_unsandboxed_rows [OF t sb]
    by (simp add: example_bq_lookup_rule_def example_observation_1_def
        example_observation_2_def col_def)
qed

theorem sandbox_queries_agree_witness:
  "map_option set (run_query example_database
       (QUERY (bq_lookup_get_sandbox_query example_imported example_bq_lookup_rule ''observation'')))
     = map_option set (run_query example_database
       (QUERY (in_memory_get_sandbox_query example_imported example_in_memory_rule ''observation'')))
   \<and> run_query example_database
       (QUERY (bq_lookup_get_sandbox_query example_imported example_bq_lookup_rule ''observation''))
     \<noteq> None
   \<and> DESTINATION_TABLE (bq_lookup_get_sandbox_query example_imported example_bq_lookup_rule ''observation'')
     = DESTINATION_TABLE (in_memory_get_sandbox_query example_imported example_in_memory_rule ''observation'')
   \<and> DESTINATION_DATASET (bq_lookup_get_sandbox_query example_imported example_bq_lookup_rule ''observation'')
     = DESTINATION_DATASET (in_memory_get_sandbox_query example_imported example_in_memory_rule ''observation'')
   \<and> DISPOSITION (bq_lookup_get_sandbox_query example_imported example_bq_lookup_rule ''observation'')
     = DISPOSITION (in_memory_get_sandbox_query example_imported example_in_memory_rule ''observation'')"
proof -
  have p: "project_id example_in_memory_rule = project_id example_bq_lookup_rule"
    and d: "dataset_id example_in_memory_rule = dataset_id example_bq_lookup_rule"
    and s: "sandbox_dataset_id example_in_memory_rule = sandbox_dataset_id example_bq_lookup_rule"
    by (simp_all add: example_in_memory_rule_def example_bq_lookup_rule_def)
  have l: "example_database (project_id example_bq_lookup_rule,
             sandbox_dataset_id example_bq_lookup_rule,
             concept_suppression_lookup_table example_bq_lookup_rule)
           = Some [[(''concept_id'', INT64 99)]]"
    by (simp add: example_database_def example_bq_lookup_rule_def)
  have e: "{k \<in> set (map (\<lambda>s. col s ''concept_id'') [[(''concept_id'', INT64 99)]]). k \<noteq> NULL} =
           INT64 ` set (get_suppressed_concept_ids example_in_memory_rule)"
    by (auto simp: col_def example_in_memory_rule_def)
  have f: "get_concept_id_fields example_imported ''observation'' \<noteq> []"
    by (simp add: example_imported_def)
  have t: "example_database (project_id example_bq_lookup_rule, dataset_id example_bq_lookup_rule,
             ''observation'') \<noteq> None"
    by (simp add: example_database_def example_bq_lookup_rule_def)
  show ?thesis
    using sandbox_queries_agree
            [where m = example_in_memory_rule and r = example_bq_lookup_rule
               and db = example_database and lookup = "[[(''concept_id'', INT64 99)]]"
               and res = example_imported and table_name = "''observation''",
             OF p d s l e] f t
    by simp
qed

theorem get_query_specs_grouped_witness:
  "get_query_specs (bq_lookup_get_sandbox_query example_imported example_bq_lookup_rule)
       example_imported example_bq_lookup_rule
     = [bq_lookup_get_sandbox_query example_imported example_bq_lookup_rule ''observation'',
        get_suppression_query example_imported example_bq_lookup_rule ''observation'',
        \<lparr>QUERY = DROP_EMPTY_SANDBOX_TABLE_QUERY ''project'' ''sandbox'' ''dc1_observation'',
         DESTINATION_DATASET = None, DESTINATION_TABLE = None, DISPOSITION = None\<rparr>]
   \<and> 3 * length (affected_tables example_bq_lookup_rule)
       \<le> length (get_query_specs (bq_lookup_get_sandbox_query example_imported example_bq_lookup_rule)
                   example_imported example_bq_lookup_rule)"
proof -
  have one: "affected_tables example_bq_lookup_rule = [''observation'']"
    by (simp add: example_bq_lookup_rule_def)
  obtain specs where specs: "specs = get_query_specs
       (bq_lookup_get_sandbox_query example_imported example_bq_lookup_rule)
       example_imported example_bq_lookup_rule" by simp
  have g: "length specs = 3" "take 1 specs =
        [bq_lookup_get_sandbox_query example_imported example_bq_lookup_rule ''observation'']"
      "take 1 (drop 1 specs) =
        [get_suppression_query example_imported example_bq_lookup_rule ''observation'']"
      "drop 2 specs = [\<lparr>QUERY = DROP_EMPTY_SANDBOX_TABLE_QUERY ''project'' ''sandbox'' ''dc1_observation'',
         DESTINATION_DATASET = None, DESTINATION_TABLE = None, DISPOSITION = None\<rparr>]"
    using get_query_specs_grouped
            [of example_bq_lookup_rule
                "bq_lookup_get_sandbox_query example_imported example_bq_lookup_rule"
                example_imported]
    unfolding specs [symmetric] one
    by (simp_all add: get_delete_empty_sandbox_tables_queries_def example_bq_lookup_rule_def
        example_imported_def)
  obtain a b c where abc: "specs = [a, b, c]"
    using g(1) by (cases specs; cases "tl specs"; cases "tl (tl specs)") auto
  show ?thesis
    using g unfolding specs [symmetric] abc one by simp
qed

theorem init_filters_affected_tables_witness:
  "affected_tables (AbstractConceptSuppression_init example_imported ''project'' ''dataset''
       ''sandbox'' [''DC-1''] ''suppress concepts'' [] [''condition_occurrence'', ''person''])
     = [''condition_occurrence'']
   \<and> get_query_specs (in_memory_get_sandbox_query example_imported example_in_memory_rule)
       example_imported
       (AbstractConceptSuppression_init example_imported ''project'' ''dataset''
          ''sandbox'' [''DC-1''] ''suppress concepts'' [] [''condition_occurrence'', ''person''])
     = [in_memory_get_sandbox_query example_imported example_in_memory_rule ''condition_occurrence'',
        get_suppression_query example_imported
          (AbstractConceptSuppression_init example_imported ''project'' ''dataset''
             ''sandbox'' [''DC-1''] ''suppress concepts'' [] [''condition_occurrence'', ''person''])
          ''condition_occurrence'',
        \<lparr>QUERY = DROP_EMPTY_SANDBOX_TABLE_QUERY ''project'' ''sandbox'' ''dc1_condition_occurrence'',
         DESTINATION_DATASET = None, DESTINATION_TABLE = None, DISPOSITION = None\<rparr>]
   \<and> Some ''person'' \<notin> DESTINATION_TABLE `
        set (get_query_specs (in_memory_get_sandbox_query example_imported example_in_memory_rule)
               example_imported
               (AbstractConceptSuppression_init example_imported ''project'' ''dataset''
                  ''sandbox'' [''DC-1''] ''suppress concepts'' []
                  [''condition_occurrence'', ''person'']))"
proof -
  let ?R = "AbstractConceptSuppression_init example_imported ''project'' ''dataset''
       ''sandbox'' [''DC-1''] ''suppress concepts'' [] [''condition_occurrence'', ''person'']"
  let ?g = "in_memory_get_sandbox_query example_imported example_in_memory_rule"
  note th = init_filters_affected_tables
          [of example_imported "''project''" "''dataset''" "''sandbox''" "[''DC-1'']"
              "''suppress concepts''" "[]" "[''condition_occurrence'', ''person'']" ?g]
  have at: "affected_tables ?R = [''condition_occurrence'']"
    using th by (simp add: example_imported_def)
  have specs: "get_query_specs ?g example_imported ?R =
      [?g ''condition_occurrence'',
       get_suppression_query example_imported ?R ''condition_occurrence'',
       \<lparr>QUERY = DROP_EMPTY_SANDBOX_TABLE_QUERY ''project'' ''sandbox'' ''dc1_condition_occurrence'',
         DESTINATION_DATASET = None, DESTINATION_TABLE = None, DISPOSITION = None\<rparr>]"
    unfolding get_query_specs_def Let_def at get_sandbox_tablenames_def
      get_delete_empty_sandbox_tables_queries_def
    by (simp add: AbstractConceptSuppression_init_def example_imported_def)
  have no: "Some ''person'' \<notin> DESTINATION_TABLE ` set (get_query_specs ?g example_imported ?R)"
    unfolding specs
    by (simp add: in_memory_get_sandbox_query_def get_suppression_query_def example_imported_def)
  show ?thesis using at specs no by simp
qed

end
